theory Spec2Isabelle
  imports Complex_Main "HOL-Library.Sublist" "HOL-Library.Char_ord" "HOL-Library.List_Lexorder"
begin

section \<open>Dashboard types (types/index.ts)\<close>

text \<open>
  TypeScript string-literal unions are datatypes, interfaces are records, an optional
  field \<open>f?: T\<close> is a \<open>T option\<close>. A TypeScript \<open>number\<close> is modelled as a rational:
  every numeric literal of the sources is a decimal, and no arithmetic below comes near
  the precision of a double. Strings are byte lists: a character outside ASCII is written
  as its UTF-8 bytes. A field keeps its name unless the name is a keyword or is taken:
  \<open>text\<close> is \<open>comment_text\<close>, the \<open>id\<close> and \<open>comment_id\<close> of an activity entry are
  \<open>log_id\<close> and \<open>log_comment_id\<close>, its details carry the prefix \<open>details_\<close>, the
  \<open>status\<close> of a response is \<open>api_status\<close>, and the fields of a client carry the
  prefix \<open>client_\<close>.
\<close>

datatype platform = Instagram | Facebook | Facebook_ads

datatype status = Pending | Classified | Processed

datatype sentiment = Positive | Negative | Neutral

datatype urgency = Low | Medium | High

datatype intent = Question | Complaint | Compliment | Spam | General

datatype action = Reply | Hide | Escalate | Ignore

datatype action_taken = Replied | Hidden | Escalated | Ignored

record Classification =
  sentiment :: sentiment
  urgency :: urgency
  intent :: intent
  toxicity_score :: rat
  confidence :: rat
  requires_response :: bool
  suggested_action :: action

text \<open>The field \<open>text\<close> of the interface is named \<open>comment_text\<close> here.\<close>

record Comment =
  comment_id :: string
  client_id :: string
  platform :: platform
  comment_text :: string
  author_name :: string
  author_id :: string
  created_time :: string
  like_count :: rat
  status :: status
  classification :: "Classification option"
  action_taken :: "action_taken option"
  reply_sent :: "bool option"
  hidden :: "bool option"
  escalated :: "bool option"

record DashboardMetrics =
  total_comments :: rat
  positive_comments :: rat
  negative_comments :: rat
  neutral_comments :: rat
  auto_replied :: rat
  hidden_comments :: rat
  escalated_comments :: rat
  processing_time_avg :: rat
  response_rate :: rat
  automation_rate :: rat

text \<open>
  \<open>ActivityLog.action_type\<close> is the union of four string literals. The components that
  render an entry take the action type as a plain \<open>string\<close>, so the record keeps the
  string and \<open>ActivityLog_action_types\<close> lists the members of the union.
\<close>

definition ActivityLog_action_types :: "string list" where
  "ActivityLog_action_types =
     [''reply_sent'', ''comment_hidden'', ''comment_escalated'', ''classification_completed'']"

record ActivityDetails =
  details_message :: "string option"
  details_reason :: "string option"
  details_confidence :: "rat option"

record ActivityLog =
  log_id :: string
  timestamp :: string
  action_type :: string
  log_comment_id :: string
  details :: ActivityDetails

datatype api_status = Success | Error

record 'a ApiResponse =
  api_status :: api_status
  data :: "'a option"
  message :: "string option"
  errors :: "string list option"

datatype client_status = Active | Inactive

datatype plan = Basic | Pro | Enterprise

record Client =
  client_ident :: string
  client_name :: string
  client_state :: client_status
  client_plan :: plan

text \<open>Characters outside ASCII that occur in the mock data, as UTF-8 bytes.\<close>

definition emoji_heart_eyes :: string where
  "emoji_heart_eyes = [CHR 0xF0, CHR 0x9F, CHR 0x98, CHR 0x8D]"

definition emoji_prohibited :: string where
  "emoji_prohibited = [CHR 0xF0, CHR 0x9F, CHR 0x9A, CHR 0xAB]"

definition emoji_party :: string where
  "emoji_party = [CHR 0xF0, CHR 0x9F, CHR 0x8E, CHR 0x89]"

definition emoji_smile :: string where
  "emoji_smile = [CHR 0xF0, CHR 0x9F, CHR 0x98, CHR 0x8A]"

definition emoji_sparkles :: string where
  "emoji_sparkles = [CHR 0xE2, CHR 0x9C, CHR 0xA8]"


section \<open>ApiService mock data (services/api.ts)\<close>

text \<open>
  \<open>xs.slice(0, limit)\<close>: a negative end counts from the end of the array, and an end
  beyond the length stops at the length. The limit is taken as an integer.
\<close>

definition slice0 :: "'a list \<Rightarrow> int \<Rightarrow> 'a list" where
  "slice0 xs limit =
     (if limit < 0 then take (nat (int (length xs) + limit)) xs else take (nat limit) xs)"

definition mockComments :: "string \<Rightarrow> Comment list" where
  "mockComments clientId =
    [ \<lparr> comment_id = ''comment_001'', client_id = clientId, platform = Instagram,
        comment_text = ''Love this product! Amazing quality and fast shipping. Highly recommend! ''
                         @ emoji_heart_eyes,
        author_name = ''Sarah Johnson'', author_id = ''user_001'',
        created_time = ''2025-06-02T10:30:00Z'', like_count = 5, status = Processed,
        classification = Some \<lparr> sentiment = Positive, urgency = Low, intent = Compliment,
          toxicity_score = 0, confidence = 95, requires_response = True,
          suggested_action = Reply \<rparr>,
        action_taken = Some Replied, reply_sent = Some True, hidden = None, escalated = None \<rparr>,
      \<lparr> comment_id = ''comment_002'', client_id = clientId, platform = Instagram,
        comment_text = ''Hi, I have a question about the return policy. How long do I have to return an item?'',
        author_name = ''Mike Chen'', author_id = ''user_002'',
        created_time = ''2025-06-02T09:15:00Z'', like_count = 0, status = Processed,
        classification = Some \<lparr> sentiment = Neutral, urgency = Medium, intent = Question,
          toxicity_score = 0, confidence = 88, requires_response = True,
          suggested_action = Reply \<rparr>,
        action_taken = Some Replied, reply_sent = Some True, hidden = None, escalated = None \<rparr>,
      \<lparr> comment_id = ''comment_003'', client_id = clientId, platform = Facebook,
        comment_text = ''This is the worst product I have ever bought. Complete waste of money! Never buying again.'',
        author_name = ''John Smith'', author_id = ''user_003'',
        created_time = ''2025-06-02T08:45:00Z'', like_count = 0, status = Processed,
        classification = Some \<lparr> sentiment = Negative, urgency = High, intent = Complaint,
          toxicity_score = 6, confidence = 92, requires_response = True,
          suggested_action = Escalate \<rparr>,
        action_taken = Some Escalated, reply_sent = None, hidden = None, escalated = Some True \<rparr>,
      \<lparr> comment_id = ''comment_004'', client_id = clientId, platform = Instagram,
        comment_text = ''Spam spam spam buy my product click here now!!! ''
                         @ emoji_prohibited @ emoji_prohibited @ emoji_prohibited,
        author_name = ''SpamBot123'', author_id = ''spam_001'',
        created_time = ''2025-06-02T07:30:00Z'', like_count = 0, status = Processed,
        classification = Some \<lparr> sentiment = Negative, urgency = Low, intent = Spam,
          toxicity_score = 8, confidence = 99, requires_response = False,
          suggested_action = Hide \<rparr>,
        action_taken = Some Hidden, reply_sent = None, hidden = Some True, escalated = None \<rparr>,
      \<lparr> comment_id = ''comment_005'', client_id = clientId, platform = Facebook_ads,
        comment_text = ''When will my order ship? I ordered 3 days ago and still no tracking info.'',
        author_name = ''Lisa Wilson'', author_id = ''user_005'',
        created_time = ''2025-06-02T06:20:00Z'', like_count = 2, status = Classified,
        classification = Some \<lparr> sentiment = Neutral, urgency = Medium, intent = Question,
          toxicity_score = 1, confidence = 85, requires_response = True,
          suggested_action = Reply \<rparr>,
        action_taken = None, reply_sent = None, hidden = None, escalated = None \<rparr> ]"

definition getMockRecentComments :: "string \<Rightarrow> int \<Rightarrow> Comment list ApiResponse" where
  "getMockRecentComments clientId limit =
     \<lparr> api_status = Success, data = Some (slice0 (mockComments clientId) limit),
       message = None, errors = None \<rparr>"

definition mockActivity :: "ActivityLog list" where
  "mockActivity =
    [ \<lparr> log_id = ''activity_001'', timestamp = ''2025-06-02T10:35:00Z'',
        action_type = ''reply_sent'', log_comment_id = ''comment_001'',
        details = \<lparr> details_message = Some (''Thank you so much for the kind words! We're thrilled you had a great experience. '' @ emoji_party),
                    details_reason = None, details_confidence = Some 95 \<rparr> \<rparr>,
      \<lparr> log_id = ''activity_002'', timestamp = ''2025-06-02T09:20:00Z'',
        action_type = ''reply_sent'', log_comment_id = ''comment_002'',
        details = \<lparr> details_message = Some (''Hi Mike! You have 30 days to return any item from the purchase date. Check your email for our full return policy. '' @ emoji_smile),
                    details_reason = None, details_confidence = Some 88 \<rparr> \<rparr>,
      \<lparr> log_id = ''activity_003'', timestamp = ''2025-06-02T08:50:00Z'',
        action_type = ''comment_escalated'', log_comment_id = ''comment_003'',
        details = \<lparr> details_message = None,
                    details_reason = Some ''High urgency negative sentiment detected'',
                    details_confidence = Some 92 \<rparr> \<rparr>,
      \<lparr> log_id = ''activity_004'', timestamp = ''2025-06-02T07:35:00Z'',
        action_type = ''comment_hidden'', log_comment_id = ''comment_004'',
        details = \<lparr> details_message = None,
                    details_reason = Some ''High toxicity score (8/10) - Spam content detected'',
                    details_confidence = Some 99 \<rparr> \<rparr>,
      \<lparr> log_id = ''activity_005'', timestamp = ''2025-06-02T06:25:00Z'',
        action_type = ''classification_completed'', log_comment_id = ''comment_005'',
        details = \<lparr> details_message = None, details_reason = None,
                    details_confidence = Some 85 \<rparr> \<rparr> ]"

definition getMockActivityLog :: "string \<Rightarrow> int \<Rightarrow> ActivityLog list ApiResponse" where
  "getMockActivityLog clientId limit =
     \<lparr> api_status = Success, data = Some (slice0 mockActivity limit),
       message = None, errors = None \<rparr>"

definition baseMetrics :: DashboardMetrics where
  "baseMetrics =
     \<lparr> total_comments = 1247, positive_comments = 789, negative_comments = 156,
       neutral_comments = 302, auto_replied = 445, hidden_comments = 23,
       escalated_comments = 12, processing_time_avg = 23 / 10, response_rate = 892 / 10,
       automation_rate = 951 / 10 \<rparr>"

definition getMockDashboardMetrics :: "string \<Rightarrow> DashboardMetrics ApiResponse" where
  "getMockDashboardMetrics clientId =
     \<lparr> api_status = Success, data = Some baseMetrics, message = None, errors = None \<rparr>"

definition getMockClients :: "Client list ApiResponse" where
  "getMockClients =
     \<lparr> api_status = Success,
       data = Some
         [ \<lparr> client_ident = ''demo_client_001'', client_name = ''Annus Mirabilis'',
             client_state = Active, client_plan = Pro \<rparr>,
           \<lparr> client_ident = ''client_002'', client_name = ''Demo Client 2'',
             client_state = Active, client_plan = Basic \<rparr>,
           \<lparr> client_ident = ''client_003'', client_name = ''Enterprise Demo'',
             client_state = Inactive, client_plan = Enterprise \<rparr> ],
       message = None, errors = None \<rparr>"


section \<open>JSON values and the JavaScript runtime\<close>

text \<open>
  A parsed JSON document. An object is the list of its members; \<open>JSON.parse\<close> keeps one
  value per key, so the members of a parsed object have distinct keys.
\<close>

datatype json =
    JNull
  | JBool bool
  | JNum rat
  | JStr string
  | JArr "json list"
  | JObj "(string \<times> json) list"

text \<open>The result of reading a property: the value, or \<open>undefined\<close>.\<close>

datatype js_value = Undefined | Val json

text \<open>
  A thrown value is an \<open>Error\<close> instance with its message, or something that is not
  an \<open>Error\<close>. A computation that can throw returns \<open>thrown + 'a\<close>.
\<close>

datatype thrown = ErrorInstance string | NotAnError

text \<open>
  What the engine and the browser supply: the message of the \<open>TypeError\<close> raised by
  reading a property of \<open>null\<close>, the decimal rendering of a number, and the
  percent-encoding of \<open>URLSearchParams\<close>.
\<close>

record js_runtime =
  null_property_message :: string
  number_to_string :: "rat \<Rightarrow> string"
  form_urlencode :: "string \<Rightarrow> string"

text \<open>
  Reading a property that is not built in (\<open>message\<close>, \<open>data\<close>, \<open>comments\<close>): on
  \<open>null\<close> it throws, on an object it looks the key up, on anything else it is
  \<open>undefined\<close>.
\<close>

definition get_property :: "js_runtime \<Rightarrow> json \<Rightarrow> string \<Rightarrow> thrown + js_value" where
  "get_property rt v k =
     (case v of
        JNull \<Rightarrow> Inl (ErrorInstance (null_property_message rt))
      | JObj kvs \<Rightarrow> Inr (case map_of kvs k of None \<Rightarrow> Undefined | Some x \<Rightarrow> Val x)
      | _ \<Rightarrow> Inr Undefined)"

fun truthy :: "js_value \<Rightarrow> bool" where
  "truthy Undefined = False"
| "truthy (Val JNull) = False"
| "truthy (Val (JBool b)) = b"
| "truthy (Val (JNum n)) = (n \<noteq> 0)"
| "truthy (Val (JStr s)) = (s \<noteq> [])"
| "truthy (Val (JArr xs)) = True"
| "truthy (Val (JObj kvs)) = True"

fun join_comma :: "string list \<Rightarrow> string" where
  "join_comma [] = []"
| "join_comma [x] = x"
| "join_comma (x # y # ys) = x @ '','' @ join_comma (y # ys)"

text \<open>\<open>String(v)\<close>, as the \<open>Error\<close> constructor applies it to its argument.\<close>

fun js_to_string :: "js_runtime \<Rightarrow> json \<Rightarrow> string" where
  "js_to_string rt JNull = ''null''"
| "js_to_string rt (JBool b) = (if b then ''true'' else ''false'')"
| "js_to_string rt (JNum n) = number_to_string rt n"
| "js_to_string rt (JStr s) = s"
| "js_to_string rt (JArr xs) =
     join_comma (map (\<lambda>x. if x = JNull then [] else js_to_string rt x) xs)"
| "js_to_string rt (JObj kvs) = ''[object Object]''"

fun show_nat :: "nat \<Rightarrow> string" where
  "show_nat n =
     (if n < 10 then [char_of (48 + n)]
      else show_nat (n div 10) @ [char_of (48 + n mod 10)])"

declare show_nat.simps [simp del]

definition show_int :: "int \<Rightarrow> string" where
  "show_int i = (if i < 0 then ''-'' @ show_nat (nat (- i)) else show_nat (nat i))"


section \<open>App fallback data (App.tsx)\<close>

text \<open>
  \<open>App.tsx\<close> declares its own \<open>Comment\<close> interface: the platform, the intent and the
  action taken are plain strings, the classification has five fields, and there is no
  status. Its \<open>Metrics\<close> interface has the fields of \<open>DashboardMetrics\<close>. The creation
  time is \<open>new Date(Date.now() - h * 60 * 60 * 1000).toISOString()\<close>; the record keeps
  the instant in epoch milliseconds that this string denotes.
\<close>

record AppClassification =
  app_sentiment :: sentiment
  app_urgency :: urgency
  app_intent :: string
  app_toxicity_score :: rat
  app_confidence :: rat

record AppComment =
  app_comment_id :: string
  app_text :: string
  app_author_name :: string
  app_platform :: string
  app_created_time :: int
  app_like_count :: rat
  app_classification :: "AppClassification option"
  app_action_taken :: "string option"
  app_reply_sent :: "bool option"
  app_hidden :: "bool option"
  app_escalated :: "bool option"

definition API_BASE_URL :: string where
  "API_BASE_URL = ''https://pmujj56e7b.execute-api.ap-south-1.amazonaws.com/dev''"

definition CLIENT_ID :: string where
  "CLIENT_ID = ''demo_client_001''"

definition fallbackMetrics :: DashboardMetrics where
  "fallbackMetrics =
     \<lparr> total_comments = 1247, positive_comments = 789, negative_comments = 156,
       neutral_comments = 302, auto_replied = 445, hidden_comments = 23,
       escalated_comments = 12, processing_time_avg = 23 / 10, response_rate = 892 / 10,
       automation_rate = 951 / 10 \<rparr>"

definition fallbackComments :: "int \<Rightarrow> AppComment list" where
  "fallbackComments now =
    [ \<lparr> app_comment_id = ''real_comment_001'',
        app_text = ''Love this product! Amazing quality and fast shipping. Highly recommend! ''
                     @ emoji_heart_eyes @ emoji_sparkles,
        app_author_name = ''Sarah Johnson'', app_platform = ''instagram'',
        app_created_time = now - 2 * 60 * 60 * 1000, app_like_count = 12,
        app_classification = Some \<lparr> app_sentiment = Positive, app_urgency = Low,
          app_intent = ''compliment'', app_toxicity_score = 0, app_confidence = 96 \<rparr>,
        app_action_taken = Some ''replied'', app_reply_sent = Some True,
        app_hidden = None, app_escalated = None \<rparr>,
      \<lparr> app_comment_id = ''real_comment_002'',
        app_text = ''Hi, I have a question about the return policy. How long do I have to return an item if I'm not satisfied?'',
        app_author_name = ''Mike Chen'', app_platform = ''instagram'',
        app_created_time = now - 3 * 60 * 60 * 1000, app_like_count = 2,
        app_classification = Some \<lparr> app_sentiment = Neutral, app_urgency = Medium,
          app_intent = ''question'', app_toxicity_score = 0, app_confidence = 88 \<rparr>,
        app_action_taken = Some ''replied'', app_reply_sent = Some True,
        app_hidden = None, app_escalated = None \<rparr>,
      \<lparr> app_comment_id = ''real_comment_003'',
        app_text = ''This is the worst product I have ever bought. Complete waste of money! Never buying again. Terrible customer service too.'',
        app_author_name = ''John Smith'', app_platform = ''facebook'',
        app_created_time = now - 4 * 60 * 60 * 1000, app_like_count = 0,
        app_classification = Some \<lparr> app_sentiment = Negative, app_urgency = High,
          app_intent = ''complaint'', app_toxicity_score = 7, app_confidence = 94 \<rparr>,
        app_action_taken = Some ''escalated'', app_reply_sent = None,
        app_hidden = None, app_escalated = Some True \<rparr>,
      \<lparr> app_comment_id = ''real_comment_004'',
        app_text = ''Spam spam spam buy my product click here now!!! Visit my profile for amazing deals ''
                     @ emoji_prohibited @ emoji_prohibited @ emoji_prohibited,
        app_author_name = ''SpamBot123'', app_platform = ''instagram'',
        app_created_time = now - 5 * 60 * 60 * 1000, app_like_count = 0,
        app_classification = Some \<lparr> app_sentiment = Negative, app_urgency = Low,
          app_intent = ''spam'', app_toxicity_score = 9, app_confidence = 99 \<rparr>,
        app_action_taken = Some ''hidden'', app_reply_sent = None,
        app_hidden = Some True, app_escalated = None \<rparr>,
      \<lparr> app_comment_id = ''real_comment_005'',
        app_text = ''When will my order ship? I ordered 3 days ago and still no tracking info. Getting worried about delivery time.'',
        app_author_name = ''Lisa Wilson'', app_platform = ''instagram'',
        app_created_time = now - 6 * 60 * 60 * 1000, app_like_count = 3,
        app_classification = Some \<lparr> app_sentiment = Neutral, app_urgency = Medium,
          app_intent = ''question'', app_toxicity_score = 1, app_confidence = 85 \<rparr>,
        app_action_taken = Some ''replied'', app_reply_sent = Some True,
        app_hidden = None, app_escalated = None \<rparr> ]"




section \<open>Action Router\<close>

text \<open>
  Modelled from the spec: the Action Router's \<open>decide\<close> lives in the Lambda functions
  (lambda-functions/shared/utils.py and the classification function), which are not among
  the sources; only the infrastructure, the deployment scripts and the dashboard are.
  The policy is the ordered rule table of section 4.4 of the specification, with the
  documented defaults (toxicity threshold 7, minimum confidence 70).
\<close>

record rules =
  toxicity_threshold :: rat
  min_confidence :: rat

definition default_rules :: rules where
  "default_rules = \<lparr> toxicity_threshold = 7, min_confidence = 70 \<rparr>"

definition routing_policy :: "((Classification \<Rightarrow> rules \<Rightarrow> bool) \<times> action) list" where
  "routing_policy =
     [ (\<lambda>c r. toxicity_score c \<ge> toxicity_threshold r, Hide),
       (\<lambda>c r. sentiment c = Negative \<and> urgency c = High, Escalate),
       (\<lambda>c r. requires_response c \<and> confidence c \<ge> min_confidence r, Reply) ]"

fun first_match ::
  "((Classification \<Rightarrow> rules \<Rightarrow> bool) \<times> action) list \<Rightarrow> Classification \<Rightarrow> rules \<Rightarrow> action"
where
  "first_match [] c r = Ignore"
| "first_match ((p, a) # ps) c r = (if p c r then a else first_match ps c r)"

definition decide :: "Classification \<Rightarrow> rules \<Rightarrow> action" where
  "decide c r = first_match routing_policy c r"

text \<open>The action a processed comment records, as the dashboard names it.\<close>

fun taken_of :: "action \<Rightarrow> action_taken" where
  "taken_of Reply = Replied"
| "taken_of Hide = Hidden"
| "taken_of Escalate = Escalated"
| "taken_of Ignore = Ignored"


section \<open>Classifier\<close>


























section \<open>Dashboard components\<close>

subsection \<open>MetricsGrid.tsx\<close>

text \<open>
  A quotient of two numbers is infinite or \<open>NaN\<close> when the divisor is zero, and
  \<open>toFixed(1)\<close> prints the decimal with one fractional digit that is nearest to its
  argument, the larger one on a tie. \<open>toFixed1\<close> is the number that this text denotes.
\<close>

datatype js_number = Finite rat | NaN | PosInfinity | NegInfinity

definition js_div :: "rat \<Rightarrow> rat \<Rightarrow> js_number" where
  "js_div a b =
     (if b = 0 then (if a = 0 then NaN else if 0 < a then PosInfinity else NegInfinity)
      else Finite (a / b))"

definition toFixed1 :: "rat \<Rightarrow> rat" where
  "toFixed1 x =
     (if x < 0 then - (of_int \<lfloor>- x * 10 + 1 / 2\<rfloor> / 10)
      else of_int \<lfloor>x * 10 + 1 / 2\<rfloor> / 10)"

text \<open>\<open>((a / b) * 100).toFixed(1)\<close>\<close>

definition percent_of :: "rat \<Rightarrow> rat \<Rightarrow> js_number" where
  "percent_of a b =
     (case js_div a b of Finite q \<Rightarrow> Finite (toFixed1 (q * 100)) | n \<Rightarrow> n)"

datatype subtitle = Literal string | Percent js_number string

datatype direction = Up | Down | Neutral_trend

text \<open>
  A card of the grid: the value is the number that \<open>toLocaleString()\<close> prints; the icon
  and the colours are named by their strings.
\<close>

record MetricCard =
  title :: string
  card_value :: rat
  icon :: string
  color :: string
  bgColor :: string
  trend :: "rat \<times> string \<times> direction"
  card_subtitle :: subtitle

definition metricCards :: "DashboardMetrics \<Rightarrow> MetricCard list" where
  "metricCards metrics =
    [ \<lparr> title = ''Total Comments'', card_value = total_comments metrics,
        icon = ''MessageCircle'', color = ''text-blue-600'', bgColor = ''bg-blue-100'',
        trend = (12, ''vs last 30 days'', Up), card_subtitle = Literal ''Last 30 days'' \<rparr>,
      \<lparr> title = ''Positive Sentiment'', card_value = positive_comments metrics,
        icon = ''TrendingUp'', color = ''text-green-600'', bgColor = ''bg-green-100'',
        trend = (8, ''vs last period'', Up),
        card_subtitle =
          Percent (percent_of (positive_comments metrics) (total_comments metrics))
            ''% of total'' \<rparr>,
      \<lparr> title = ''Negative/Toxic'', card_value = negative_comments metrics,
        icon = ''TrendingDown'', color = ''text-red-600'', bgColor = ''bg-red-100'',
        trend = (15, ''reduction this month'', Down),
        card_subtitle =
          Percent (percent_of (negative_comments metrics) (total_comments metrics))
            ''% of total'' \<rparr>,
      \<lparr> title = ''Auto-Replied'', card_value = auto_replied metrics,
        icon = ''Bot'', color = ''text-purple-600'', bgColor = ''bg-purple-100'',
        trend = (25, ''efficiency improvement'', Up),
        card_subtitle =
          Percent (percent_of (auto_replied metrics) (total_comments metrics))
            ''% automation rate'' \<rparr>,
      \<lparr> title = ''Hidden/Moderated'', card_value = hidden_comments metrics,
        icon = ''Shield'', color = ''text-orange-600'', bgColor = ''bg-orange-100'',
        trend = (5, ''vs last month'', Down),
        card_subtitle = Literal ''Toxic content blocked'' \<rparr>,
      \<lparr> title = ''Escalated to Human'', card_value = escalated_comments metrics,
        icon = ''AlertTriangle'', color = ''text-yellow-600'', bgColor = ''bg-yellow-100'',
        trend = (3, ''requiring attention'', Neutral_trend),
        card_subtitle = Literal ''High-priority issues'' \<rparr> ]"

text \<open>The three performance cards: title, the number shown, and the unit after it.\<close>

definition performance_summary :: "DashboardMetrics \<Rightarrow> (string \<times> rat \<times> string) list" where
  "performance_summary metrics =
    [ (''Avg Processing Time'', processing_time_avg metrics, ''s''),
      (''Response Rate'', response_rate metrics, ''%''),
      (''Automation Rate'', automation_rate metrics, ''%'') ]"

datatype grid = Skeleton nat | Cards "MetricCard list" "(string \<times> rat \<times> string) list"

definition MetricsGrid :: "DashboardMetrics \<Rightarrow> bool \<Rightarrow> grid" where
  "MetricsGrid metrics isLoading =
     (if isLoading then Skeleton 6
      else Cards (metricCards metrics) (performance_summary metrics))"





subsection \<open>ActivityFeed.tsx\<close>

definition getActivityIcon :: "string \<Rightarrow> string" where
  "getActivityIcon actionType =
     (if actionType = ''reply_sent'' then ''Bot''
      else if actionType = ''comment_hidden'' then ''EyeOff''
      else if actionType = ''comment_escalated'' then ''AlertTriangle''
      else if actionType = ''classification_completed'' then ''CheckCircle''
      else ''Clock'')"

definition getActivityColor :: "string \<Rightarrow> string" where
  "getActivityColor actionType =
     (if actionType = ''reply_sent'' then ''text-green-600 bg-green-100''
      else if actionType = ''comment_hidden'' then ''text-orange-600 bg-orange-100''
      else if actionType = ''comment_escalated'' then ''text-red-600 bg-red-100''
      else if actionType = ''classification_completed'' then ''text-blue-600 bg-blue-100''
      else ''text-gray-600 bg-gray-100'')"

definition getActivityTitle :: "string \<Rightarrow> string" where
  "getActivityTitle actionType =
     (if actionType = ''reply_sent'' then ''Auto-Reply Sent''
      else if actionType = ''comment_hidden'' then ''Comment Hidden''
      else if actionType = ''comment_escalated'' then ''Escalated to Human''
      else if actionType = ''classification_completed'' then ''Comment Classified''
      else ''Activity'')"

text \<open>A template literal prints a missing field as \<open>undefined\<close>.\<close>

definition template_number :: "js_runtime \<Rightarrow> rat option \<Rightarrow> string" where
  "template_number rt n = (case n of None \<Rightarrow> ''undefined'' | Some q \<Rightarrow> number_to_string rt q)"

definition template_string :: "string option \<Rightarrow> string" where
  "template_string s = (case s of None \<Rightarrow> ''undefined'' | Some t \<Rightarrow> t)"

definition getActivityDescription :: "js_runtime \<Rightarrow> ActivityLog \<Rightarrow> string" where
  "getActivityDescription rt activity =
     (if action_type activity = ''reply_sent''
        then ''Automated response sent with ''
               @ template_number rt (details_confidence (details activity)) @ ''% confidence''
      else if action_type activity = ''comment_hidden''
        then ''Hidden due to: '' @ template_string (details_reason (details activity))
      else if action_type activity = ''comment_escalated''
        then ''Escalated: '' @ template_string (details_reason (details activity))
      else if action_type activity = ''classification_completed''
        then ''Analysis completed with ''
               @ template_number rt (details_confidence (details activity)) @ ''% confidence''
      else ''System activity recorded'')"

subsection \<open>RecentComments.tsx\<close>

text \<open>
  The action badge is drawn only when \<open>action_taken\<close> is set; its icon is looked up for
  \<open>comment.action_taken || 'pending'\<close>.
\<close>

definition getActionIcon :: "string \<Rightarrow> string" where
  "getActionIcon act =
     (if act = ''replied'' then ''Bot''
      else if act = ''hidden'' then ''EyeOff''
      else if act = ''escalated'' then ''AlertTriangle''
      else ''Clock'')"

definition getActionColor :: "string \<Rightarrow> string" where
  "getActionColor act =
     (if act = ''replied'' then ''text-green-600 bg-green-100''
      else if act = ''hidden'' then ''text-orange-600 bg-orange-100''
      else if act = ''escalated'' then ''text-red-600 bg-red-100''
      else ''text-gray-600 bg-gray-100'')"

fun action_taken_name :: "action_taken \<Rightarrow> string" where
  "action_taken_name Replied = ''replied''"
| "action_taken_name Hidden = ''hidden''"
| "action_taken_name Escalated = ''escalated''"
| "action_taken_name Ignored = ''ignored''"

text \<open>The badge of a comment: nothing, or the colour classes and the label.\<close>

definition action_status_badge :: "Comment \<Rightarrow> (string \<times> string) option" where
  "action_status_badge k =
     (case action_taken k of
        None \<Rightarrow> None
      | Some a \<Rightarrow> Some (getActionColor (action_taken_name a), action_taken_name a))"

subsection \<open>App.tsx\<close>

text \<open>The action badge of \<open>App.tsx\<close>: its class and its label.\<close>

definition app_action_badge :: "AppComment \<Rightarrow> string \<times> string" where
  "app_action_badge k =
     (''action-badge '' @ (case app_action_taken k of
                            None \<Rightarrow> ''pending''
                          | Some a \<Rightarrow> if a = [] then ''pending'' else a),
      (if app_action_taken k = Some ''replied''
         then [CHR 0xF0, CHR 0x9F, CHR 0xA4, CHR 0x96] @ '' Auto-replied''
       else if app_action_taken k = Some ''escalated''
         then [CHR 0xE2, CHR 0x9A, CHR 0xA0, CHR 0xEF, CHR 0xB8, CHR 0x8F] @ '' Escalated''
       else if app_action_taken k = Some ''hidden''
         then [CHR 0xF0, CHR 0x9F, CHR 0x99, CHR 0x88] @ '' Hidden''
       else [CHR 0xE2, CHR 0x8F, CHR 0xB3] @ '' Processing''))"


section \<open>Infrastructure (infrastructure/main.tf) and deployment scripts\<close>

text \<open>
  Terraform resources are records of the arguments the file sets; an argument the file
  leaves out is \<open>None\<close>. Resource names are built from the variables
  \<open>project_name\<close> and \<open>environment\<close>.
\<close>

record tf_vars =
  aws_region :: string
  project_name :: string
  environment :: string

definition default_vars :: tf_vars where
  "default_vars =
     \<lparr> aws_region = ''us-east-1'', project_name = ''orm-platform'', environment = ''dev'' \<rparr>"

record redrive =
  deadLetterTargetArn :: string
  maxReceiveCount :: nat

record sqs_queue =
  queue_name :: string
  visibility_timeout_seconds :: "nat option"
  message_retention_seconds :: "nat option"
  redrive_policy :: "redrive option"

definition comment_processing_dlq :: "tf_vars \<Rightarrow> sqs_queue" where
  "comment_processing_dlq v =
     \<lparr> queue_name = project_name v @ ''-comments-dlq-'' @ environment v,
       visibility_timeout_seconds = None, message_retention_seconds = None,
       redrive_policy = None \<rparr>"

text \<open>The ARN of a queue of the configuration is stood for by the queue's name.\<close>

definition comment_processing :: "tf_vars \<Rightarrow> sqs_queue" where
  "comment_processing v =
     \<lparr> queue_name = project_name v @ ''-comments-'' @ environment v,
       visibility_timeout_seconds = Some 300,
       message_retention_seconds = Some 1209600,
       redrive_policy =
         Some \<lparr> deadLetterTargetArn = queue_name (comment_processing_dlq v),
                maxReceiveCount = 3 \<rparr> \<rparr>"

text \<open>
  \<open>aws lambda create-event-source-mapping\<close> of deploy-lambdas-simple.sh and of
  deploy-lambdas.sh: the classification function is fed from the queue in batches. The
  queue is given by the name that ends its ARN.
\<close>

record script_vars =
  PROJECT_NAME :: string
  ENVIRONMENT :: string
  REGION :: string

definition script_config :: script_vars where
  "script_config =
     \<lparr> PROJECT_NAME = ''orm-platform'', ENVIRONMENT = ''dev'', REGION = ''ap-south-1'' \<rparr>"

record event_source_mapping =
  function_name :: string
  source_queue :: string
  batch_size :: nat

definition sqs_trigger :: "script_vars \<Rightarrow> event_source_mapping" where
  "sqs_trigger s =
     \<lparr> function_name = PROJECT_NAME s @ ''-classification-function-'' @ ENVIRONMENT s,
       source_queue = PROJECT_NAME s @ ''-comments-'' @ ENVIRONMENT s,
       batch_size = 10 \<rparr>"

text \<open>
  The redrive policy, as the queue service applies it (the service is not code of the
  repository): a message whose receive count exceeds \<open>maxReceiveCount\<close> is moved to the
  queue that \<open>deadLetterTargetArn\<close> names instead of being delivered again; a queue
  without a redrive policy redelivers always. The message carries the comment, the client
  and the receive count that the service maintains.
\<close>

record QueueMessage =
  msg_comment_id :: string
  msg_client_id :: string
  receive_count :: nat

datatype delivery = Redeliver | DeadLetter string

definition route_message :: "sqs_queue \<Rightarrow> QueueMessage \<Rightarrow> delivery" where
  "route_message q m =
     (case redrive_policy q of
        None \<Rightarrow> Redeliver
      | Some p \<Rightarrow>
          if receive_count m > maxReceiveCount p then DeadLetter (deadLetterTargetArn p)
          else Redeliver)"

subsection \<open>The ingestion schedule\<close>

record event_rule =
  rule_name :: string
  rule_description :: string
  schedule_expression :: string

definition comment_ingestion_schedule :: "tf_vars \<Rightarrow> event_rule" where
  "comment_ingestion_schedule v =
     \<lparr> rule_name = project_name v @ ''-ingestion-'' @ environment v,
       rule_description = ''Trigger comment ingestion every 5 minutes'',
       schedule_expression = ''rate(5 minutes)'' \<rparr>"

text \<open>\<open>aws events put-targets\<close> of the deployment scripts: the rule and its target.\<close>

definition ingestion_target :: "script_vars \<Rightarrow> string \<times> string" where
  "ingestion_target s =
     (PROJECT_NAME s @ ''-ingestion-'' @ ENVIRONMENT s,
      PROJECT_NAME s @ ''-ingestion-function-'' @ ENVIRONMENT s)"

text \<open>
  A rate expression of the scheduler, \<open>rate(value unit)\<close>: a positive number and a unit,
  singular for the value one and plural otherwise. \<open>rate_minutes\<close> is the period in
  minutes, or \<open>None\<close> when the text is not a rate expression.
\<close>

definition is_digit :: "char \<Rightarrow> bool" where
  "is_digit c = (48 \<le> (of_char c :: nat) \<and> (of_char c :: nat) \<le> 57)"

definition parse_nat :: "string \<Rightarrow> nat option" where
  "parse_nat s =
     (if s \<noteq> [] \<and> list_all is_digit s
      then Some (foldl (\<lambda>n c. 10 * n + (of_char c - 48)) 0 s)
      else None)"

definition unit_minutes :: "nat \<Rightarrow> string \<Rightarrow> nat option" where
  "unit_minutes n u =
     (if u = (if n = 1 then ''minute'' else ''minutes'') then Some 1
      else if u = (if n = 1 then ''hour'' else ''hours'') then Some 60
      else if u = (if n = 1 then ''day'' else ''days'') then Some 1440
      else None)"

definition rate_minutes :: "string \<Rightarrow> nat option" where
  "rate_minutes s =
     (if prefix ''rate('' s \<and> suffix '')'' s \<and> 6 \<le> length s then
        (let inner = butlast (drop 5 s);
             v = takeWhile (\<lambda>c. c \<noteq> CHR '' '') inner;
             u = drop 1 (dropWhile (\<lambda>c. c \<noteq> CHR '' '') inner)
         in case parse_nat v of
              None \<Rightarrow> None
            | Some n \<Rightarrow>
                if n = 0 then None
                else (case unit_minutes n u of None \<Rightarrow> None | Some k \<Rightarrow> Some (n * k)))
      else None)"

subsection \<open>The tables\<close>

record global_secondary_index =
  index_name :: string
  index_hash_key :: string
  index_range_key :: "string option"
  projection_type :: string

record dynamodb_table =
  table_name :: string
  billing_mode :: string
  hash_key :: string
  range_key :: "string option"
  attributes :: "(string \<times> string) list"
  global_secondary_indexes :: "global_secondary_index list"


definition config_table :: "tf_vars \<Rightarrow> dynamodb_table" where
  "config_table v =
     \<lparr> table_name = project_name v @ ''-config-'' @ environment v,
       billing_mode = ''PAY_PER_REQUEST'', hash_key = ''client_id'',
       range_key = Some ''config_type'',
       attributes = [(''client_id'', ''S''), (''config_type'', ''S'')],
       global_secondary_indexes = [] \<rparr>"




type_synonym item = "(string \<times> string) list"




section \<open>The network\<close>

text \<open>
  The second argument of \<open>fetch\<close>, the request it sends, and the response: whether the
  status is in the range 200..299, the status, and what \<open>response.json()\<close> settles to.
  The network is a function from the request to the outcome of \<open>fetch\<close>. A request
  without a method is a GET, and one without a body carries none.
\<close>

record RequestInit =
  init_method :: "string option"
  init_headers :: "(string \<times> string) list option"
  init_body :: "string option"

record request =
  url :: string
  init :: "RequestInit option"

record Response =
  ok :: bool
  http_status :: nat
  json_body :: "thrown + json"

type_synonym network = "request \<Rightarrow> thrown + Response"

definition request_method :: "request \<Rightarrow> string" where
  "request_method r =
     (case init r of
        None \<Rightarrow> ''GET''
      | Some i \<Rightarrow> (case init_method i of None \<Rightarrow> ''GET'' | Some m \<Rightarrow> m))"

definition request_body :: "request \<Rightarrow> string option" where
  "request_body r = (case init r of None \<Rightarrow> None | Some i \<Rightarrow> init_body i)"

text \<open>
  An \<open>async\<close> function settles its promise with the value its body returns, or rejects
  it with what the body throws; \<open>try_catch\<close> runs the handler on a thrown value.
\<close>

datatype 'a promise = Resolved 'a | Rejected thrown

definition async :: "thrown + 'a \<Rightarrow> 'a promise" where
  "async body = (case body of Inl t \<Rightarrow> Rejected t | Inr v \<Rightarrow> Resolved v)"

definition try_catch :: "thrown + 'a \<Rightarrow> (thrown \<Rightarrow> thrown + 'a) \<Rightarrow> thrown + 'a" where
  "try_catch body handler = (case body of Inl t \<Rightarrow> handler t | Inr v \<Rightarrow> Inr v)"


section \<open>ApiService (services/api.ts)\<close>

record ApiService =
  baseUrl :: string
  useMock :: bool

text \<open>The constructor, from \<open>import.meta.env.PROD\<close>.\<close>

definition new_ApiService :: "bool \<Rightarrow> ApiService" where
  "new_ApiService is_prod =
     \<lparr> baseUrl = (if is_prod
                   then ''https://your-api-gateway-url.execute-api.ap-south-1.amazonaws.com/dev''
                   else ''http://localhost:3001''),
       useMock = (\<not> is_prod) \<rparr>"

text \<open>
  What a method's promise resolves to: a response the code built itself, or the parsed
  body of the HTTP response, which \<open>apiCall\<close> returns as it is.
\<close>

datatype 'a api_value = Typed "'a ApiResponse" | Untyped json

text \<open>
  \<open>{ headers: { 'Content-Type': 'application/json', ...options?.headers }, ...options }\<close>:
  the members of \<open>options\<close> come last and replace the merged headers when \<open>options\<close>
  has headers of its own.
\<close>

definition apiCall_init :: "RequestInit option \<Rightarrow> RequestInit" where
  "apiCall_init options =
     (case options of
        None \<Rightarrow>
          \<lparr> init_method = None,
            init_headers = Some [(''Content-Type'', ''application/json'')],
            init_body = None \<rparr>
      | Some opt \<Rightarrow>
          \<lparr> init_method = init_method opt,
            init_headers =
              (case init_headers opt of
                 None \<Rightarrow> Some [(''Content-Type'', ''application/json'')]
               | Some h \<Rightarrow> Some h),
            init_body = init_body opt \<rparr>)"

definition apiCall_request :: "ApiService \<Rightarrow> string \<Rightarrow> RequestInit option \<Rightarrow> request" where
  "apiCall_request svc endpoint options =
     \<lparr> url = baseUrl svc @ endpoint, init = Some (apiCall_init options) \<rparr>"

text \<open>The body of the \<open>try\<close> block, given the outcome of \<open>fetch\<close>.\<close>

definition apiCall_try :: "js_runtime \<Rightarrow> thrown + Response \<Rightarrow> thrown + 'a api_value" where
  "apiCall_try rt fetched =
     (case fetched of
        Inl t \<Rightarrow> Inl t
      | Inr response \<Rightarrow>
          (case json_body response of
             Inl t \<Rightarrow> Inl t
           | Inr d \<Rightarrow>
               if \<not> ok response then
                 (case get_property rt d ''message'' of
                    Inl t \<Rightarrow> Inl t
                  | Inr m \<Rightarrow>
                      Inl (ErrorInstance
                        (case m of
                           Undefined \<Rightarrow> ''HTTP error! status: '' @ show_nat (http_status response)
                         | Val mv \<Rightarrow>
                             if truthy m then js_to_string rt mv
                             else ''HTTP error! status: '' @ show_nat (http_status response))))
               else Inr (Untyped d)))"

text \<open>The \<open>catch\<close> block (the call of \<open>console.error\<close> is left out).\<close>

definition apiCall_catch :: "thrown \<Rightarrow> thrown + 'a api_value" where
  "apiCall_catch t =
     Inr (Typed \<lparr> api_status = Error, data = None,
                  message = Some (case t of
                                    ErrorInstance m \<Rightarrow> m
                                  | NotAnError \<Rightarrow> ''Unknown error occurred''),
                  errors = None \<rparr>)"

text \<open>A call returns the promise and the requests it has sent.\<close>

definition apiCall ::
  "js_runtime \<Rightarrow> network \<Rightarrow> ApiService \<Rightarrow> string \<Rightarrow> RequestInit option
     \<Rightarrow> 'a api_value promise \<times> request list" where
  "apiCall rt net svc endpoint options =
     (let req = apiCall_request svc endpoint options
      in (async (try_catch (apiCall_try rt (net req)) apiCall_catch), [req]))"

record DateRange =
  range_start :: string
  range_end :: string

record FilterOptions =
  dateRange :: "DateRange option"
  filter_platforms :: "platform list option"
  filter_sentiment :: "sentiment list option"
  filter_status :: "status list option"
  filter_urgency :: "urgency list option"

text \<open>\<open>URLSearchParams.toString()\<close>\<close>

fun join_amp :: "string list \<Rightarrow> string" where
  "join_amp [] = []"
| "join_amp [x] = x"
| "join_amp (x # y # ys) = x @ ''&'' @ join_amp (y # ys)"

definition params_toString :: "js_runtime \<Rightarrow> (string \<times> string) list \<Rightarrow> string" where
  "params_toString rt ps =
     join_amp (map (\<lambda>(k, v). form_urlencode rt k @ ''='' @ form_urlencode rt v) ps)"

definition getClients ::
  "js_runtime \<Rightarrow> network \<Rightarrow> ApiService \<Rightarrow> Client list api_value promise \<times> request list" where
  "getClients rt net svc =
     (if useMock svc then (Resolved (Typed getMockClients), [])
      else apiCall rt net svc ''/clients'' None)"

definition getDashboardMetrics ::
  "js_runtime \<Rightarrow> network \<Rightarrow> ApiService \<Rightarrow> string \<Rightarrow> FilterOptions option
     \<Rightarrow> DashboardMetrics api_value promise \<times> request list" where
  "getDashboardMetrics rt net svc clientId filters =
     (if useMock svc then (Resolved (Typed (getMockDashboardMetrics clientId)), [])
      else
        (let params =
               (case filters of
                  None \<Rightarrow> []
                | Some f \<Rightarrow>
                    (case dateRange f of
                       None \<Rightarrow> []
                     | Some dr \<Rightarrow>
                         [(''start_date'', range_start dr), (''end_date'', range_end dr)]))
         in apiCall rt net svc (''/metrics/'' @ clientId @ ''?'' @ params_toString rt params)
              None))"

definition getRecentComments ::
  "js_runtime \<Rightarrow> network \<Rightarrow> ApiService \<Rightarrow> string \<Rightarrow> int
     \<Rightarrow> Comment list api_value promise \<times> request list" where
  "getRecentComments rt net svc clientId limit =
     (if useMock svc then (Resolved (Typed (getMockRecentComments clientId limit)), [])
      else apiCall rt net svc
             (''/comments/recent/'' @ clientId @ ''?limit='' @ show_int limit) None)"

definition getActivityLog ::
  "js_runtime \<Rightarrow> network \<Rightarrow> ApiService \<Rightarrow> string \<Rightarrow> int
     \<Rightarrow> ActivityLog list api_value promise \<times> request list" where
  "getActivityLog rt net svc clientId limit =
     (if useMock svc then (Resolved (Typed (getMockActivityLog clientId limit)), [])
      else apiCall rt net svc (''/activity/'' @ clientId @ ''?limit='' @ show_int limit) None)"

text \<open>The mock health record carries \<open>new Date().toISOString()\<close>, given here as \<open>now\<close>.\<close>

definition healthCheck ::
  "js_runtime \<Rightarrow> network \<Rightarrow> ApiService \<Rightarrow> string
     \<Rightarrow> (string \<times> string) api_value promise \<times> request list" where
  "healthCheck rt net svc now =
     (if useMock svc
      then (Resolved (Typed \<lparr> api_status = Success, data = Some (''healthy'', now),
                              message = None, errors = None \<rparr>), [])
      else apiCall rt net svc ''/health'' None)"


section \<open>App.fetchDashboardData (App.tsx)\<close>

text \<open>
  The state holds what the API sent, as it came, or the typed fallback data.
\<close>

datatype 'a dyn = Static 'a | Dynamic json

record AppState =
  st_metrics :: "DashboardMetrics dyn option"
  st_comments :: "AppComment list dyn"
  st_loading :: bool
  st_error :: "string option"

text \<open>The initial values of the four \<open>useState\<close> hooks.\<close>

definition initial_state :: AppState where
  "initial_state =
     \<lparr> st_metrics = None, st_comments = Static [], st_loading = True, st_error = None \<rparr>"

definition metrics_request :: request where
  "metrics_request = \<lparr> url = API_BASE_URL @ ''/metrics/'' @ CLIENT_ID, init = None \<rparr>"

definition comments_request :: request where
  "comments_request =
     \<lparr> url = API_BASE_URL @ ''/comments/recent/'' @ CLIENT_ID @ ''?limit=10'', init = None \<rparr>"

text \<open>\<open>a.k || b\<close>, for a parsed value \<open>a\<close>; \<open>b\<close> is evaluated only when needed.\<close>

definition property_or ::
  "js_runtime \<Rightarrow> json \<Rightarrow> string \<Rightarrow> thrown + json \<Rightarrow> thrown + json" where
  "property_or rt a k b =
     (case get_property rt a k of
        Inl t \<Rightarrow> Inl t
      | Inr Undefined \<Rightarrow> b
      | Inr (Val x) \<Rightarrow> (if truthy (Val x) then Inr x else b))"

text \<open>
  The inner \<open>try\<close> block: \<open>Some\<close> of the real data when both responses are ok,
  \<open>None\<close> when one is not, and a thrown value when a fetch rejects or a body does not
  parse.
\<close>

definition fetch_real_data :: "js_runtime \<Rightarrow> network \<Rightarrow> thrown + (json \<times> json) option" where
  "fetch_real_data rt net =
     (case net metrics_request of
        Inl t \<Rightarrow> Inl t
      | Inr metricsRes \<Rightarrow>
          (case net comments_request of
             Inl t \<Rightarrow> Inl t
           | Inr commentsRes \<Rightarrow>
               if ok metricsRes \<and> ok commentsRes then
                 (case json_body metricsRes of
                    Inl t \<Rightarrow> Inl t
                  | Inr metricsData \<Rightarrow>
                      (case json_body commentsRes of
                         Inl t \<Rightarrow> Inl t
                       | Inr commentsData \<Rightarrow>
                           (case property_or rt metricsData ''data'' (Inr metricsData) of
                              Inl t \<Rightarrow> Inl t
                            | Inr m \<Rightarrow>
                                (case property_or rt commentsData ''comments''
                                        (property_or rt commentsData ''data'' (Inr (JArr []))) of
                                   Inl t \<Rightarrow> Inl t
                                 | Inr c \<Rightarrow> Inr (Some (m, c))))))
               else Inr None))"

definition fetchDashboardData ::
  "js_runtime \<Rightarrow> network \<Rightarrow> int \<Rightarrow> AppState \<Rightarrow> AppState \<times> request list" where
  "fetchDashboardData rt net now st =
     (let st1 = st\<lparr> st_loading := True, st_error := None \<rparr>;
          st2 = (case fetch_real_data rt net of
                   Inr (Some (m, c)) \<Rightarrow>
                     st1\<lparr> st_metrics := Some (Dynamic m), st_comments := Dynamic c \<rparr>
                 | _ \<Rightarrow>
                     st1\<lparr> st_metrics := Some (Static fallbackMetrics),
                          st_comments := Static (fallbackComments now) \<rparr>)
      in (st2\<lparr> st_loading := False \<rparr>, [metrics_request, comments_request]))"


section \<open>Example inputs\<close>




definition example_runtime :: js_runtime where
  "example_runtime =
     \<lparr> null_property_message = ''Cannot read properties of null (reading 'message')'',
       number_to_string = (\<lambda>q. show_int \<lfloor>q\<rfloor>),
       form_urlencode = (\<lambda>s. s) \<rparr>"

definition failing_network :: network where
  "failing_network r =
     Inr \<lparr> ok = False, http_status = 500, json_body = Inr (JObj [(''detail'', JNull)]) \<rparr>"




text \<open>An activity entry of a type outside the union, as a failed action would be logged.\<close>

definition failed_activity :: ActivityLog where
  "failed_activity =
     \<lparr> log_id = ''activity_006'', timestamp = ''2025-06-02T05:00:00Z'',
       action_type = ''action_failed'', log_comment_id = ''comment_006'',
       details = \<lparr> details_message = None,
                   details_reason = Some ''retries exhausted'',
                   details_confidence = None \<rparr> \<rparr>"


section \<open>Routing (C1)\<close>

text \<open>
  C1. For every classification and every rule set, \<open>decide\<close> returns the action of the
  first rule that matches, in the order hide (toxicity at or above the threshold),
  escalate (negative sentiment and high urgency), reply (response required and confidence
  at or above the minimum), and ignore when none matches; as a function of the
  classification and the rules it returns one action, the same for the same inputs. Under
  the default rules a negative comment with toxicity 8 and confidence 99 is hidden
  whatever its urgency, intent and response flag. On the mock comments of the ApiService
  the decision under the default rules is the recorded \<open>suggested_action\<close>, and for the
  processed ones the recorded \<open>action_taken\<close>; the fourth of them (toxicity 8, negative,
  confidence 99) is hidden.
\<close>

theorem decide_first_match_wins:
  "decide c r =
     (if toxicity_score c \<ge> toxicity_threshold r then Hide
      else if sentiment c = Negative \<and> urgency c = High then Escalate
      else if requires_response c \<and> confidence c \<ge> min_confidence r then Reply
      else Ignore)
   \<and> (\<forall>u i rr sa.
         decide \<lparr> sentiment = Negative, urgency = u, intent = i, toxicity_score = 8,
                  confidence = 99, requires_response = rr, suggested_action = sa \<rparr>
           default_rules = Hide)
   \<and> (\<forall>clientId.
         map (\<lambda>k. map_option (\<lambda>c. decide c default_rules) (classification k))
           (mockComments clientId)
         = map (\<lambda>k. map_option suggested_action (classification k)) (mockComments clientId))
   \<and> (\<forall>clientId.
         map (\<lambda>k. (comment_id k,
                    map_option (\<lambda>c. taken_of (decide c default_rules)) (classification k)))
           (filter (\<lambda>k. status k = Processed) (mockComments clientId))
         = map (\<lambda>k. (comment_id k, action_taken k))
             (filter (\<lambda>k. status k = Processed) (mockComments clientId)))
   \<and> (\<forall>clientId.
         map (\<lambda>k. (map_option toxicity_score (classification k),
                    map_option (\<lambda>c. decide c default_rules) (classification k)))
           (filter (\<lambda>k. comment_id k = ''comment_004'') (mockComments clientId))
         = [(Some 8, Some Hide)])"
  by (simp add: decide_def routing_policy_def default_rules_def mockComments_def)


section \<open>The work queue (C2)\<close>

text \<open>
  C2. The classification function is fed from the comment queue in batches of 10; the
  queue's visibility timeout is 300 seconds and its retention 14 days; its redrive policy
  allows 3 receives and names the dead-letter queue, so that a message whose receive count
  exceeds 3 goes to the dead-letter queue and one whose count is at most 3 is redelivered.
\<close>

theorem queue_configured_as_specified:
  "batch_size (sqs_trigger script_config) = 10
   \<and> source_queue (sqs_trigger script_config) = queue_name (comment_processing default_vars)
   \<and> visibility_timeout_seconds (comment_processing v) = Some 300
   \<and> message_retention_seconds (comment_processing v) = Some (14 * 24 * 60 * 60)
   \<and> map_option maxReceiveCount (redrive_policy (comment_processing v)) = Some 3
   \<and> (receive_count m > 3 \<longrightarrow>
        route_message (comment_processing v) m
          = DeadLetter (queue_name (comment_processing_dlq v)))
   \<and> (receive_count m \<le> 3 \<longrightarrow> route_message (comment_processing v) m = Redeliver)"
  by (simp add: sqs_trigger_def script_config_def comment_processing_def default_vars_def
        route_message_def)

theorem queue_configured_as_specified_witness:
  "route_message (comment_processing default_vars)
     \<lparr> msg_comment_id = ''comment_003'', msg_client_id = ''demo_client_001'',
       receive_count = 4 \<rparr>
     = DeadLetter ''orm-platform-comments-dlq-dev''
   \<and> route_message (comment_processing default_vars)
     \<lparr> msg_comment_id = ''comment_003'', msg_client_id = ''demo_client_001'',
       receive_count = 3 \<rparr>
     = Redeliver"
  using queue_configured_as_specified
          [of default_vars "\<lparr> msg_comment_id = ''comment_003'',
                               msg_client_id = ''demo_client_001'', receive_count = 4 \<rparr>"]
        queue_configured_as_specified
          [of default_vars "\<lparr> msg_comment_id = ''comment_003'',
                               msg_client_id = ''demo_client_001'', receive_count = 3 \<rparr>"]
  by (simp add: comment_processing_dlq_def default_vars_def)


section \<open>The end-to-end scenario (C3)\<close>




section \<open>Displayed rates (C4)\<close>





section \<open>Failed comments in the dashboard (C5)\<close>

text \<open>
  C5 as stated fails on the sources: the action type of an activity entry has four
  members, \<open>action_failed\<close> is not one of them, and the activity feed renders it like
  any unknown action type.
\<close>

theorem action_failed_counterexample:
  "''action_failed'' \<notin> set ActivityLog_action_types
   \<and> length ActivityLog_action_types = 4
   \<and> getActivityTitle ''action_failed'' = ''Activity''
   \<and> getActivityTitle ''action_failed'' = getActivityTitle ''''
   \<and> getActivityIcon ''action_failed'' = getActivityIcon ''''
   \<and> getActivityColor ''action_failed'' = getActivityColor ''''"
  by (simp add: ActivityLog_action_types_def getActivityTitle_def getActivityIcon_def
        getActivityColor_def)

lemma status_values: "(UNIV :: status set) = {Pending, Classified, Processed}"
  using status.exhaust by auto

lemma action_taken_values: "(UNIV :: action_taken set) = {Replied, Hidden, Escalated, Ignored}"
  using action_taken.exhaust by auto

text \<open>
  C5, amended. The action type of an activity entry ranges over \<open>reply_sent\<close>,
  \<open>comment_hidden\<close>, \<open>comment_escalated\<close> and \<open>classification_completed\<close>; any other
  action type, \<open>action_failed\<close> included, is rendered with the generic title, icon,
  colour and description. A comment's status is pending, classified or processed and its
  action is replied, hidden, escalated or ignored. The list of recent comments draws no
  badge for a comment without an action and the grey default for any action other than
  replied, hidden and escalated; \<open>App.tsx\<close> labels every comment whose action is none
  of replied, escalated and hidden as processing.
\<close>

theorem unknown_action_type_rendered_generic:
  "set ActivityLog_action_types
     = {''reply_sent'', ''comment_hidden'', ''comment_escalated'', ''classification_completed''}
   \<and> (\<forall>s. s \<notin> set ActivityLog_action_types \<longrightarrow>
         getActivityTitle s = ''Activity'' \<and> getActivityIcon s = ''Clock''
         \<and> getActivityColor s = ''text-gray-600 bg-gray-100'')
   \<and> (\<forall>rt e. action_type e \<notin> set ActivityLog_action_types \<longrightarrow>
         getActivityDescription rt e = ''System activity recorded'')
   \<and> (UNIV :: status set) = {Pending, Classified, Processed}
   \<and> (UNIV :: action_taken set) = {Replied, Hidden, Escalated, Ignored}
   \<and> (\<forall>s. s \<notin> {''replied'', ''hidden'', ''escalated''} \<longrightarrow>
         getActionIcon s = ''Clock'' \<and> getActionColor s = ''text-gray-600 bg-gray-100'')
   \<and> (\<forall>k. action_taken k = None \<longrightarrow> action_status_badge k = None)
   \<and> (\<forall>k. action_taken k = Some Ignored \<longrightarrow>
         action_status_badge k = Some (''text-gray-600 bg-gray-100'', ''ignored''))
   \<and> (\<forall>k. app_action_taken k \<notin> {Some ''replied'', Some ''escalated'', Some ''hidden''} \<longrightarrow>
         snd (app_action_badge k) = [CHR 0xE2, CHR 0x8F, CHR 0xB3] @ '' Processing'')"
  by (simp add: ActivityLog_action_types_def getActivityTitle_def getActivityIcon_def
        getActivityColor_def getActivityDescription_def app_action_badge_def
        action_status_badge_def getActionColor_def getActionIcon_def status_values
        action_taken_values)

theorem unknown_action_type_rendered_generic_witness:
  "''action_failed'' \<notin> set ActivityLog_action_types
   \<and> getActivityTitle ''action_failed'' = ''Activity''
   \<and> getActivityIcon ''action_failed'' = ''Clock''
   \<and> getActivityColor ''action_failed'' = ''text-gray-600 bg-gray-100''
   \<and> getActivityDescription example_runtime failed_activity = ''System activity recorded''
   \<and> getActionIcon ''failed'' = ''Clock''
   \<and> getActionColor ''failed'' = ''text-gray-600 bg-gray-100''
   \<and> action_status_badge (mockComments ''demo_client_001'' ! 4) = None
   \<and> snd (app_action_badge ((fallbackComments 0 ! 2)\<lparr> app_action_taken := Some ''failed'' \<rparr>))
       = [CHR 0xE2, CHR 0x8F, CHR 0xB3] @ '' Processing''"
proof -
  have h: "''action_failed'' \<notin> set ActivityLog_action_types"
    by (simp add: ActivityLog_action_types_def)
  have e: "action_type failed_activity \<notin> set ActivityLog_action_types"
    by (simp add: ActivityLog_action_types_def failed_activity_def)
  have n: "action_taken (mockComments ''demo_client_001'' ! 4) = None"
    by (simp add: mockComments_def)
  have a: "app_action_taken ((fallbackComments 0 ! 2)\<lparr> app_action_taken := Some ''failed'' \<rparr>)
             \<notin> {Some ''replied'', Some ''escalated'', Some ''hidden''}"
    by simp
  have i: "''failed'' \<notin> {''replied'', ''hidden'', ''escalated''}"
    by simp
  note generic = unknown_action_type_rendered_generic
  note activity = generic [THEN conjunct2, THEN conjunct1, rule_format, OF h]
  note description =
    generic [THEN conjunct2, THEN conjunct2, THEN conjunct1, rule_format, OF e,
             of example_runtime]
  note recent =
    generic [THEN conjunct2, THEN conjunct2, THEN conjunct2, THEN conjunct2,
             THEN conjunct2, THEN conjunct1, rule_format, OF i]
  note no_badge =
    generic [THEN conjunct2, THEN conjunct2, THEN conjunct2, THEN conjunct2,
             THEN conjunct2, THEN conjunct2, THEN conjunct1, rule_format, OF n]
  note processing =
    generic [THEN conjunct2, THEN conjunct2, THEN conjunct2, THEN conjunct2,
             THEN conjunct2, THEN conjunct2, THEN conjunct2, THEN conjunct2,
             rule_format, OF a]
  from h activity description recent no_badge processing show ?thesis
    by simp
qed


section \<open>The dashboard only reads (C6)\<close>

lemma apiCall_requests:
  "snd (apiCall rt net svc endpoint options) = [apiCall_request svc endpoint options]"
  by (simp add: apiCall_def Let_def)

lemma apiCall_request_get:
  "request_method (apiCall_request svc endpoint None) = ''GET''
   \<and> request_body (apiCall_request svc endpoint None) = None"
  by (simp add: apiCall_request_def apiCall_init_def request_method_def request_body_def)

lemma apiCall_plain_get:
  "r \<in> set (snd (apiCall rt net svc endpoint None))
     \<Longrightarrow> request_method r = ''GET'' \<and> request_body r = None"
  by (simp add: apiCall_requests apiCall_request_get)

lemma getClients_get:
  "r \<in> set (snd (getClients rt net svc)) \<Longrightarrow> request_method r = ''GET'' \<and> request_body r = None"
  by (auto simp: getClients_def dest: apiCall_plain_get split: if_splits)

lemma getDashboardMetrics_get:
  "r \<in> set (snd (getDashboardMetrics rt net svc clientId filters))
     \<Longrightarrow> request_method r = ''GET'' \<and> request_body r = None"
  by (auto simp: getDashboardMetrics_def Let_def dest: apiCall_plain_get split: if_splits)

lemma getRecentComments_get:
  "r \<in> set (snd (getRecentComments rt net svc clientId limit))
     \<Longrightarrow> request_method r = ''GET'' \<and> request_body r = None"
  by (auto simp: getRecentComments_def dest: apiCall_plain_get split: if_splits)

lemma getActivityLog_get:
  "r \<in> set (snd (getActivityLog rt net svc clientId limit))
     \<Longrightarrow> request_method r = ''GET'' \<and> request_body r = None"
  by (auto simp: getActivityLog_def dest: apiCall_plain_get split: if_splits)

lemma healthCheck_get:
  "r \<in> set (snd (healthCheck rt net svc now))
     \<Longrightarrow> request_method r = ''GET'' \<and> request_body r = None"
  by (auto simp: healthCheck_def dest: apiCall_plain_get split: if_splits)

lemma fetchDashboardData_get:
  "r \<in> set (snd (fetchDashboardData rt net t st))
     \<Longrightarrow> request_method r = ''GET'' \<and> request_body r = None"
  by (auto simp: fetchDashboardData_def Let_def metrics_request_def comments_request_def
        request_method_def request_body_def)

text \<open>
  C6. Every request that a public method of the ApiService sends (clients, metrics, recent
  comments, activity log, health), and every request of \<open>App.fetchDashboardData\<close>, is a
  GET without a body, whatever the network answers and whether or not mock data is used.
\<close>

theorem dashboard_requests_are_get:
  "(\<forall>r \<in> set (snd (getClients rt net svc)). request_method r = ''GET'' \<and> request_body r = None)
   \<and> (\<forall>r \<in> set (snd (getDashboardMetrics rt net svc clientId filters)).
         request_method r = ''GET'' \<and> request_body r = None)
   \<and> (\<forall>r \<in> set (snd (getRecentComments rt net svc clientId limit)).
         request_method r = ''GET'' \<and> request_body r = None)
   \<and> (\<forall>r \<in> set (snd (getActivityLog rt net svc clientId limit)).
         request_method r = ''GET'' \<and> request_body r = None)
   \<and> (\<forall>r \<in> set (snd (healthCheck rt net svc now)).
         request_method r = ''GET'' \<and> request_body r = None)
   \<and> (\<forall>r \<in> set (snd (fetchDashboardData rt net t st)).
         request_method r = ''GET'' \<and> request_body r = None)"
proof -
  have a: "\<forall>r \<in> set (snd (getClients rt net svc)).
             request_method r = ''GET'' \<and> request_body r = None"
    by (rule ballI) (rule getClients_get)
  have b: "\<forall>r \<in> set (snd (getDashboardMetrics rt net svc clientId filters)).
             request_method r = ''GET'' \<and> request_body r = None"
    by (rule ballI) (rule getDashboardMetrics_get)
  have c: "\<forall>r \<in> set (snd (getRecentComments rt net svc clientId limit)).
             request_method r = ''GET'' \<and> request_body r = None"
    by (rule ballI) (rule getRecentComments_get)
  have d: "\<forall>r \<in> set (snd (getActivityLog rt net svc clientId limit)).
             request_method r = ''GET'' \<and> request_body r = None"
    by (rule ballI) (rule getActivityLog_get)
  have e: "\<forall>r \<in> set (snd (healthCheck rt net svc now)).
             request_method r = ''GET'' \<and> request_body r = None"
    by (rule ballI) (rule healthCheck_get)
  have f: "\<forall>r \<in> set (snd (fetchDashboardData rt net t st)).
             request_method r = ''GET'' \<and> request_body r = None"
    by (rule ballI) (rule fetchDashboardData_get)
  from a b c d e f show ?thesis by (intro conjI)
qed

theorem dashboard_requests_are_get_witness:
  "map (\<lambda>r. (url r, request_method r, request_body r))
     (snd (getClients example_runtime failing_network (new_ApiService True)))
     = [(''https://your-api-gateway-url.execute-api.ap-south-1.amazonaws.com/dev/clients'',
         ''GET'', None)]
   \<and> map (\<lambda>r. (url r, request_method r, request_body r))
     (snd (getDashboardMetrics example_runtime failing_network (new_ApiService True)
             ''demo_client_001'' None))
     = [(''https://your-api-gateway-url.execute-api.ap-south-1.amazonaws.com/dev/metrics/demo_client_001?'',
         ''GET'', None)]
   \<and> map (\<lambda>r. (url r, request_method r, request_body r))
     (snd (getRecentComments example_runtime failing_network (new_ApiService True)
             ''demo_client_001'' 10))
     = [(''https://your-api-gateway-url.execute-api.ap-south-1.amazonaws.com/dev/comments/recent/demo_client_001?limit=10'',
         ''GET'', None)]
   \<and> map (\<lambda>r. (url r, request_method r, request_body r))
     (snd (getActivityLog example_runtime failing_network (new_ApiService True)
             ''demo_client_001'' 10))
     = [(''https://your-api-gateway-url.execute-api.ap-south-1.amazonaws.com/dev/activity/demo_client_001?limit=10'',
         ''GET'', None)]
   \<and> map (\<lambda>r. (url r, request_method r, request_body r))
     (snd (healthCheck example_runtime failing_network (new_ApiService True)
             ''2025-06-02T10:00:00Z''))
     = [(''https://your-api-gateway-url.execute-api.ap-south-1.amazonaws.com/dev/health'',
         ''GET'', None)]
   \<and> map (\<lambda>r. (url r, request_method r, request_body r))
     (snd (fetchDashboardData example_runtime failing_network 0 initial_state))
     = [(''https://pmujj56e7b.execute-api.ap-south-1.amazonaws.com/dev/metrics/demo_client_001'',
         ''GET'', None),
        (''https://pmujj56e7b.execute-api.ap-south-1.amazonaws.com/dev/comments/recent/demo_client_001?limit=10'',
         ''GET'', None)]"
proof -
  note gets =
    dashboard_requests_are_get
      [of example_runtime failing_network "new_ApiService True" "''demo_client_001''" None 10
          "''2025-06-02T10:00:00Z''" 0 initial_state]
  have a: "map url (snd (getClients example_runtime failing_network (new_ApiService True)))
     = [''https://your-api-gateway-url.execute-api.ap-south-1.amazonaws.com/dev/clients'']"
    by code_simp
  have b: "map url (snd (getDashboardMetrics example_runtime failing_network
                          (new_ApiService True) ''demo_client_001'' None))
     = [''https://your-api-gateway-url.execute-api.ap-south-1.amazonaws.com/dev/metrics/demo_client_001?'']"
    by code_simp
  have c: "map url (snd (getRecentComments example_runtime failing_network
                          (new_ApiService True) ''demo_client_001'' 10))
     = [''https://your-api-gateway-url.execute-api.ap-south-1.amazonaws.com/dev/comments/recent/demo_client_001?limit=10'']"
    by code_simp
  have d: "map url (snd (getActivityLog example_runtime failing_network
                          (new_ApiService True) ''demo_client_001'' 10))
     = [''https://your-api-gateway-url.execute-api.ap-south-1.amazonaws.com/dev/activity/demo_client_001?limit=10'']"
    by code_simp
  have e: "map url (snd (healthCheck example_runtime failing_network (new_ApiService True)
                          ''2025-06-02T10:00:00Z''))
     = [''https://your-api-gateway-url.execute-api.ap-south-1.amazonaws.com/dev/health'']"
    by code_simp
  have f: "map url (snd (fetchDashboardData example_runtime failing_network 0 initial_state))
     = [''https://pmujj56e7b.execute-api.ap-south-1.amazonaws.com/dev/metrics/demo_client_001'',
        ''https://pmujj56e7b.execute-api.ap-south-1.amazonaws.com/dev/comments/recent/demo_client_001?limit=10'']"
    by code_simp
  have split: "\<And>xs us. map url xs = us
        \<Longrightarrow> \<forall>r \<in> set xs. request_method r = ''GET'' \<and> request_body r = None
        \<Longrightarrow> map (\<lambda>r. (url r, request_method r, request_body r)) xs
              = map (\<lambda>u. (u, ''GET'', None)) us"
    by auto
  from gets show ?thesis
    using split [OF a] split [OF b] split [OF c] split [OF d] split [OF e] split [OF f]
    by simp
qed


section \<open>The audit query (C7)\<close>








section \<open>The range invariant of classifications (C8)\<close>

















section \<open>The ingestion schedule (C9)\<close>

lemma rate_five_minutes: "rate_minutes ''rate(5 minutes)'' = Some 5"
  by code_simp

text \<open>
  C9. The schedule expression of the ingestion rule is a rate of once every 5 minutes, and
  the deployment scripts attach the ingestion function to the rule of that name.
\<close>

theorem ingestion_every_five_minutes:
  "rate_minutes (schedule_expression (comment_ingestion_schedule v)) = Some 5
   \<and> ingestion_target script_config
       = (rule_name (comment_ingestion_schedule default_vars),
          ''orm-platform-ingestion-function-dev'')"
  by (simp add: comment_ingestion_schedule_def rate_five_minutes ingestion_target_def
        script_config_def default_vars_def)


section \<open>apiCall is total over failures (C10)\<close>









end
